theory Spec2Isabelle
  imports Main
begin

section \<open>Bytes, errors and readers\<close>

text \<open>
  Go byte slices and Go strings are both sequences of bytes, and \<open>string(b)\<close> copies the
  bytes of \<open>b\<close>: both are \<^typ>\<open>string\<close> here (a list of 8-bit characters). A slice that
  may be \<open>nil\<close> is a \<^typ>\<open>string option\<close>, \<open>None\<close> being \<open>nil\<close>.
\<close>

datatype io_error = EOF | ErrUnexpectedEOF | ErrShortWrite | ErrHeader | ErrChecksum
  | OtherError string

datatype panic = NilPointerDereference

text \<open>
  The values of interface type \<open>io.Reader\<close> that the middlewares meet:
  \<^item> \<open>BytesReader b\<close>: \<open>bytes.NewReader(b)\<close> or \<open>bytes.NewBuffer(b)\<close>, positioned at the
    start of \<open>b\<close> (\<open>ioutil.NopCloser\<close> adds a \<open>Close\<close> that does nothing);
  \<^item> \<open>Stream b e\<close>: any other reader, about to yield the bytes \<open>b\<close> and then to stop with the
    error \<open>e\<close> (\<open>None\<close>: a clean end of input);
  \<^item> \<open>GzipReader p\<close>: a pointer of type \<open>*gzip.Reader\<close> stored in the interface. \<open>None\<close> is the
    \<open>nil\<close> pointer (the interface value itself is then not \<open>nil\<close>); \<open>Some (d, e)\<close> is a reader
    about to yield the decompressed bytes \<open>d\<close> and then to stop with \<open>e\<close>.
\<close>

datatype io_Reader = BytesReader string | Stream string "io_error option"
  | GzipReader "(string \<times> io_error option) option"

text \<open>
  \<open>ioutil.ReadAll(r)\<close> reads until the reader stops and returns what it read, in a slice
  that is never \<open>nil\<close>, with the error that stopped it unless that is the end of input.
  \<open>(*gzip.Reader).Read\<close> starts by reading the field \<open>z.err\<close> of its receiver, so on the
  \<open>nil\<close> pointer it panics.
\<close>

fun ioutil_ReadAll :: "io_Reader \<Rightarrow> panic + (string option \<times> io_error option)" where
  "ioutil_ReadAll (BytesReader b) = Inr (Some b, None)"
| "ioutil_ReadAll (Stream b e) = Inr (Some b, e)"
| "ioutil_ReadAll (GzipReader None) = Inl NilPointerDereference"
| "ioutil_ReadAll (GzipReader (Some (d, e))) = Inr (Some d, e)"

text \<open>The reader that \<open>ioutil.ReadAll\<close> leaves behind: everything has been consumed.\<close>

fun drained :: "io_Reader \<Rightarrow> io_Reader" where
  "drained (BytesReader b) = BytesReader []"
| "drained (Stream b e) = Stream [] e"
| "drained (GzipReader None) = GzipReader None"
| "drained (GzipReader (Some (d, e))) = GzipReader (Some ([], e))"

fun string_of :: "string option \<Rightarrow> string" where
  "string_of None = []"
| "string_of (Some b) = b"

section \<open>Headers and requests\<close>

text \<open>
  \<open>http.Header\<close> is \<open>map[string][]string\<close>. Indexing a Go map at a missing key gives the zero
  value, here the \<open>nil\<close> slice, whose length is 0 as that of the empty slice.
\<close>

type_synonym http_Header = "string \<rightharpoonup> string list"

definition index :: "http_Header \<Rightarrow> string \<Rightarrow> string list" where
  "index h k = (case h k of None \<Rightarrow> [] | Some v \<Rightarrow> v)"

text \<open>
  \<open>Header.Get(key)\<close> returns the first value stored under the canonical form of \<open>key\<close>, or
  \<open>""\<close>. The key the code asks for, \<open>Content-Encoding\<close>, is its own canonical form.
\<close>

definition Header_Get :: "http_Header \<Rightarrow> string \<Rightarrow> string" where
  "Header_Get h key = (case index h key of [] \<Rightarrow> [] | v # _ \<Rightarrow> v)"

record http_Request =
  Method :: string
  RequestURI :: string
  Proto :: string
  Header :: http_Header
  Body :: io_Reader

definition MethodOptions :: string where
  "MethodOptions = ''OPTIONS''"

definition StatusOK :: int where
  "StatusOK = 200"

section \<open>The dumps\<close>

record RequestDump =
  req_Method :: string
  req_Target :: string
  req_Protocol :: string
  req_Headers :: http_Header
  req_Body :: string

record ResponseDump =
  resp_Headers :: "string \<rightharpoonup> string"
  resp_Body :: string
  resp_StatusCode :: int

record RoundtripDump =
  Timestamp :: nat
  Request :: RequestDump
  Response :: ResponseDump

subsection \<open>dumpRequest\<close>

text \<open>
  \<open>dumpRequest\<close> works on the request through a pointer: the model returns the request as
  the function leaves it, beside the dump. Reading consumes \<open>r.Body\<close>; when the slice read is
  not \<open>nil\<close> the body is replaced by a fresh buffer over it. The error of \<open>ReadAll\<close> is
  dropped. The loop over \<open>r.Header\<close> copies every binding into an empty map.
\<close>

definition dumpRequest :: "http_Request \<Rightarrow> panic + (RequestDump \<times> http_Request)" where
  "dumpRequest r =
     (case ioutil_ReadAll (Body r) of
        Inl p \<Rightarrow> Inl p
      | Inr (bodyBuf, _) \<Rightarrow>
          let r1 = r\<lparr>Body := drained (Body r)\<rparr>;
              (r2, bodyString) =
                (case bodyBuf of
                   Some buf \<Rightarrow> (r1\<lparr>Body := BytesReader buf\<rparr>, string_of (Some buf))
                 | None \<Rightarrow> (r1, []));
              rStruct = \<lparr>req_Method = Method r2, req_Target = RequestURI r2,
                         req_Protocol = Proto r2, req_Headers = Map.empty ++ Header r2,
                         req_Body = bodyString\<rparr>
          in Inr (rStruct, r2))"

subsection \<open>compress/gzip\<close>

text \<open>
  \<open>gzip.NewReader(r)\<close> returns \<open>(z, nil)\<close> once it has read a member header from \<open>r\<close>, and
  \<open>(nil, err)\<close> otherwise. The header starts with ten fixed bytes, read by \<open>io.ReadFull\<close>:
  no byte at all is \<open>io.EOF\<close>, fewer than ten \<open>io.ErrUnexpectedEOF\<close>, and the first three
  must be \<open>0x1f\<close>, \<open>0x8b\<close> and \<open>8\<close> (else \<open>gzip.ErrHeader\<close>). The library is not part of this
  repository: what it makes of the input after these ten bytes (the optional header
  fields, the DEFLATE stream, the trailer with its checksum) is the parameter \<open>codec\<close>.
  \<open>BadMember e\<close>: the header is refused with \<open>e\<close>; \<open>Member d e\<close>: the reader is returned
  and yields \<open>d\<close>, then stops with \<open>e\<close> (\<open>None\<close> at the end of a well-formed stream).
\<close>

datatype member = BadMember io_error | Member string "io_error option"

type_synonym gzip_codec = "string \<Rightarrow> member"

definition gzip_NewReader ::
  "gzip_codec \<Rightarrow> string \<Rightarrow> (string \<times> io_error option) option \<times> io_error option" where
  "gzip_NewReader codec b =
     (if b = [] then (None, Some EOF)
      else if length b < 10 then (None, Some ErrUnexpectedEOF)
      else if take 3 b \<noteq> [CHR 0x1F, CHR 0x8B, CHR 0x08] then (None, Some ErrHeader)
      else (case codec b of
              BadMember e \<Rightarrow> (None, Some e)
            | Member d e \<Rightarrow> (Some (d, e), None)))"

section \<open>The response writers\<close>

subsection \<open>The server's writer\<close>

text \<open>
  The \<open>http.ResponseWriter\<close> that the server hands to the outermost handler. \<open>Header()\<close>
  returns the map \<open>handlerHeader\<close>, which the handler updates in place. The first
  \<open>WriteHeader\<close> fixes the status and the headers that go to the client; later calls are
  ignored. \<open>Write\<close> calls \<open>WriteHeader(http.StatusOK)\<close> first when no header has been
  written. The connection is the list \<open>conn\<close> of what happens to the coming writes:
  \<open>Deliver\<close> takes all the bytes, \<open>Partial n e\<close> takes at most \<open>n\<close> of them and reports \<open>e\<close>;
  after the list every write is delivered.
\<close>

datatype conn_event = Deliver | Partial nat "io_error option"

record response =
  handlerHeader :: http_Header
  wroteHeader :: bool
  status :: int
  sentHeader :: http_Header
  wire :: string
  conn :: "conn_event list"

definition response_WriteHeader :: "response \<Rightarrow> int \<Rightarrow> response" where
  "response_WriteHeader w code =
     (if wroteHeader w then w
      else w\<lparr>wroteHeader := True, status := code, sentHeader := handlerHeader w\<rparr>)"

definition response_Write :: "response \<Rightarrow> string \<Rightarrow> response \<times> nat \<times> io_error option" where
  "response_Write w0 p =
     (let w = (if \<not> wroteHeader w0 then response_WriteHeader w0 StatusOK else w0)
      in case conn w of
           [] \<Rightarrow> (w\<lparr>wire := wire w @ p\<rparr>, length p, None)
         | Deliver # rest \<Rightarrow> (w\<lparr>wire := wire w @ p, conn := rest\<rparr>, length p, None)
         | Partial n e # rest \<Rightarrow>
             (w\<lparr>wire := wire w @ take n p, conn := rest\<rparr>, min n (length p), e))"

subsection \<open>ResponseSnifferingWriter\<close>

text \<open>
  The field \<open>MultiWriter\<close> is \<open>io.MultiWriter(result.BytesBuffer, realWriter)\<close>: it holds the
  pointer to the buffer and the writer that the other two fields hold, so it is no field
  of the record, and writing to it is \<open>MultiWriter_Write\<close> on the record. The constructor
  sets no \<open>Status\<close>: the field has the zero value of \<open>int\<close>.
\<close>

record ResponseSnifferingWriter =
  ResponseWriter :: response
  BytesBuffer :: string
  Status :: int

definition NewResponseSnifferingWriter :: "response \<Rightarrow> ResponseSnifferingWriter" where
  "NewResponseSnifferingWriter realWriter =
     \<lparr>ResponseWriter = realWriter, BytesBuffer = [], Status = 0\<rparr>"

text \<open>
  \<open>(*multiWriter).Write\<close> writes \<open>p\<close> to each writer in the order given, here the buffer
  and then the real writer, and stops at the first that returns an error or a count
  other than \<open>len(p)\<close>. \<open>(*bytes.Buffer).Write\<close> appends \<open>p\<close> and returns \<open>(len(p), nil)\<close>.
\<close>

definition MultiWriter_Write ::
  "ResponseSnifferingWriter \<Rightarrow> string \<Rightarrow> ResponseSnifferingWriter \<times> nat \<times> io_error option" where
  "MultiWriter_Write sw p =
     (let sw1 = sw\<lparr>BytesBuffer := BytesBuffer sw @ p\<rparr>;
          (rw, n, err) = response_Write (ResponseWriter sw1) p;
          sw2 = sw1\<lparr>ResponseWriter := rw\<rparr>
      in if err \<noteq> None then (sw2, n, err)
         else if n \<noteq> length p then (sw2, n, Some ErrShortWrite)
         else (sw2, length p, None))"

definition ResponseSnifferingWriter_Header :: "ResponseSnifferingWriter \<Rightarrow> http_Header" where
  "ResponseSnifferingWriter_Header w = handlerHeader (ResponseWriter w)"

definition ResponseSnifferingWriter_WriteHeader ::
  "ResponseSnifferingWriter \<Rightarrow> int \<Rightarrow> ResponseSnifferingWriter" where
  "ResponseSnifferingWriter_WriteHeader w st =
     (let w1 = w\<lparr>Status := st\<rparr>
      in w1\<lparr>ResponseWriter := response_WriteHeader (ResponseWriter w1) st\<rparr>)"

definition ResponseSnifferingWriter_Write ::
  "ResponseSnifferingWriter \<Rightarrow> string \<Rightarrow> ResponseSnifferingWriter \<times> nat \<times> io_error option" where
  "ResponseSnifferingWriter_Write w b = MultiWriter_Write w b"

subsection \<open>dumpResponse\<close>

text \<open>
  The first component of \<open>gzip.NewReader\<close>'s result is stored in the variable \<open>reader\<close> of
  type \<open>io.Reader\<close> whatever the second is. The inner loop appends the values of a header
  one after the other to the empty string.
\<close>

definition dumpResponse :: "gzip_codec \<Rightarrow> ResponseSnifferingWriter \<Rightarrow> panic + ResponseDump" where
  "dumpResponse codec sw =
     (let headers = handlerHeader (ResponseWriter sw);
          b = BytesBuffer sw;
          reader = (if Header_Get headers ''Content-Encoding'' = ''gzip''
                    then GzipReader (fst (gzip_NewReader codec b))
                    else BytesReader b)
      in case ioutil_ReadAll reader of
           Inl p \<Rightarrow> Inl p
         | Inr (b', _) \<Rightarrow>
             Inr \<lparr>resp_Headers =
                    (\<lambda>k. case headers k of None \<Rightarrow> None | Some v \<Rightarrow> Some (foldl (@) [] v)),
                  resp_Body = string_of b', resp_StatusCode = Status sw\<rparr>)"

section \<open>Handlers and the dump middleware\<close>

text \<open>
  A downstream handler is given by the calls it makes on the writer it receives, which
  may depend on the request it receives: \<open>CallSetHeader k v\<close> is \<open>w.Header()[k] = v\<close>,
  \<open>CallWriteHeader s\<close> is \<open>w.WriteHeader(s)\<close>, \<open>CallWrite b\<close> is \<open>w.Write(b)\<close>.
\<close>

datatype call = CallSetHeader string "string list" | CallWriteHeader int | CallWrite string

type_synonym Handler = "http_Request \<Rightarrow> call list"

fun response_call :: "response \<Rightarrow> call \<Rightarrow> response" where
  "response_call w (CallSetHeader k v) = w\<lparr>handlerHeader := (handlerHeader w)(k \<mapsto> v)\<rparr>"
| "response_call w (CallWriteHeader s) = response_WriteHeader w s"
| "response_call w (CallWrite b) = fst (response_Write w b)"

fun sniffer_call :: "ResponseSnifferingWriter \<Rightarrow> call \<Rightarrow> ResponseSnifferingWriter" where
  "sniffer_call sw (CallSetHeader k v) =
     sw\<lparr>ResponseWriter := response_call (ResponseWriter sw) (CallSetHeader k v)\<rparr>"
| "sniffer_call sw (CallWriteHeader s) = ResponseSnifferingWriter_WriteHeader sw s"
| "sniffer_call sw (CallWrite b) = fst (ResponseSnifferingWriter_Write sw b)"

text \<open>
  \<open>NewDumpMiddleware(dumpAction)(next)\<close> serving the request \<open>r\<close> on the writer \<open>w\<close>. The
  result is the writer and the request afterwards and the dumps with which \<open>dumpAction\<close>
  has been started (each \<open>go dumpAction(&dump)\<close> adds one), or the panic that ended the
  handler. \<open>now\<close> is what \<open>time.Now()\<close> returns.
\<close>

definition NewDumpMiddleware ::
  "gzip_codec \<Rightarrow> nat \<Rightarrow> Handler \<Rightarrow> response \<Rightarrow> http_Request
     \<Rightarrow> panic + (response \<times> http_Request \<times> RoundtripDump list)" where
  "NewDumpMiddleware codec now next w r =
     (if Method r \<noteq> MethodOptions then
        (let sw = NewResponseSnifferingWriter w
         in case dumpRequest r of
              Inl p \<Rightarrow> Inl p
            | Inr (requestData, r') \<Rightarrow>
                (let sw' = foldl sniffer_call sw (next r')
                 in case dumpResponse codec sw' of
                      Inl p \<Rightarrow> Inl p
                    | Inr responseData \<Rightarrow>
                        Inr (ResponseWriter sw', r',
                             [\<lparr>Timestamp = now, Request = requestData,
                               Response = responseData\<rparr>])))
      else Inr (foldl response_call w (next r), r, []))"

section \<open>The header rewriting middleware\<close>

definition castToHeaderForRequest :: "(string \<rightharpoonup> string) \<Rightarrow> http_Request \<Rightarrow> http_Header" where
  "castToHeaderForRequest c r =
     (\<lambda>k. case c k of
             None \<Rightarrow> None
           | Some v \<Rightarrow>
               if k = ''Access-Control-Allow-Origin'' \<and> v = ''*''
               then Some (index (Header r) ''Origin'')
               else Some [v])"

record rewriteResponseWriter =
  rw_ResponseWriter :: response
  RewriteHeader :: http_Header

text \<open>
  The loop assigns every binding of \<open>RewriteHeader\<close> into the map that \<open>Header()\<close> returns,
  which is the real writer's.
\<close>

definition rewriteResponseWriter_WriteHeader ::
  "rewriteResponseWriter \<Rightarrow> int \<Rightarrow> rewriteResponseWriter" where
  "rewriteResponseWriter_WriteHeader w statusCode =
     (let h1 = handlerHeader (rw_ResponseWriter w) ++ RewriteHeader w;
          h2 = (if length (index h1 ''Access-Control-Allow-Origin'') > 0
                   \<and> length (index h1 ''Access-Control-Allow-Headers'') = 0
                then h1(''Access-Control-Allow-Headers'' \<mapsto> [''*''])
                else h1)
      in w\<lparr>rw_ResponseWriter :=
             response_WriteHeader ((rw_ResponseWriter w)\<lparr>handlerHeader := h2\<rparr>) statusCode\<rparr>)"

definition rewriteResponseWriter_Write ::
  "rewriteResponseWriter \<Rightarrow> string \<Rightarrow> rewriteResponseWriter \<times> nat \<times> io_error option" where
  "rewriteResponseWriter_Write w b =
     (let (rw, n, err) = response_Write (rw_ResponseWriter w) b
      in (w\<lparr>rw_ResponseWriter := rw\<rparr>, n, err))"

fun rewriter_call :: "rewriteResponseWriter \<Rightarrow> call \<Rightarrow> rewriteResponseWriter" where
  "rewriter_call w (CallSetHeader k v) =
     w\<lparr>rw_ResponseWriter := response_call (rw_ResponseWriter w) (CallSetHeader k v)\<rparr>"
| "rewriter_call w (CallWriteHeader s) = rewriteResponseWriter_WriteHeader w s"
| "rewriter_call w (CallWrite b) = fst (rewriteResponseWriter_Write w b)"

definition NewResponseHeaderWriteMiddlwware ::
  "(string \<rightharpoonup> string) \<Rightarrow> Handler \<Rightarrow> response \<Rightarrow> http_Request \<Rightarrow> response" where
  "NewResponseHeaderWriteMiddlwware headers next w r =
     (let rewriteHeader = castToHeaderForRequest headers r;
          rw = \<lparr>rw_ResponseWriter = w, RewriteHeader = rewriteHeader\<rparr>
      in rw_ResponseWriter (foldl rewriter_call rw (next r)))"

section \<open>Notions used by the statements\<close>



text \<open>The dumps handed to the sink; none when the handler panicked.\<close>

definition dumped ::
  "panic + (response \<times> http_Request \<times> RoundtripDump list) \<Rightarrow> RoundtripDump list" where
  "dumped res = (case res of Inl p \<Rightarrow> [] | Inr (w, r, ds) \<Rightarrow> ds)"

subsection \<open>Sample inputs\<close>

text \<open>A writer on which nothing has been set or sent, over a connection \<open>evs\<close>.\<close>

definition fresh_response :: "conn_event list \<Rightarrow> response" where
  "fresh_response evs =
     \<lparr>handlerHeader = Map.empty, wroteHeader = False, status = 0, sentHeader = Map.empty,
      wire = [], conn = evs\<rparr>"

definition get_request :: http_Request where
  "get_request =
     \<lparr>Method = ''GET'', RequestURI = ''/items'', Proto = ''HTTP/1.1'',
      Header = [''Origin'' \<mapsto> [''https://example.com'']], Body = Stream [] None\<rparr>"

definition post_request :: http_Request where
  "post_request =
     \<lparr>Method = ''POST'', RequestURI = ''/items'', Proto = ''HTTP/1.1'',
      Header = [''Content-Type'' \<mapsto> [''text/plain'']], Body = Stream ''payload'' None\<rparr>"

definition handler_body_only :: Handler where
  "handler_body_only r = [CallWrite ''hello'']"

definition handler_gzip_text :: Handler where
  "handler_gzip_text r =
     [CallSetHeader ''Content-Encoding'' [''gzip''], CallWriteHeader 200,
      CallWrite ''plain text, not gzip'']"

definition handler_gzip_no_body :: Handler where
  "handler_gzip_no_body r =
     [CallSetHeader ''Content-Encoding'' [''gzip''], CallWriteHeader 200]"

text \<open>The gzip member that holds the two bytes \<open>hi\<close>, and a codec that knows this member.\<close>

definition gzip_hi :: string where
  "gzip_hi =
     [CHR 0x1F, CHR 0x8B, CHR 0x08, CHR 0x00, CHR 0x00, CHR 0x00, CHR 0x00, CHR 0x00,
      CHR 0x02, CHR 0x03, CHR 0xCB, CHR 0xC8, CHR 0x04, CHR 0x00, CHR 0xAC, CHR 0x2A,
      CHR 0x93, CHR 0xD8, CHR 0x02, CHR 0x00, CHR 0x00, CHR 0x00]"

definition sample_codec :: gzip_codec where
  "sample_codec b = (if b = gzip_hi then Member ''hi'' None else BadMember ErrHeader)"


definition handler_status_then_body :: Handler where
  "handler_status_then_body r = [CallWriteHeader 201, CallWrite ''ok'']"

definition handler_two_values :: Handler where
  "handler_two_values r = [CallSetHeader ''Vary'' [''Origin'', ''Accept''], CallWrite ''ok'']"

definition allow_origin_overlay :: "string \<rightharpoonup> string" where
  "allow_origin_overlay = [''Access-Control-Allow-Origin'' \<mapsto> ''*'']"

section \<open>Evaluation and helper lemmas\<close>

lemmas eval_defs = NewDumpMiddleware_def dumpRequest_def dumpResponse_def
  NewResponseSnifferingWriter_def ResponseSnifferingWriter_Write_def
  ResponseSnifferingWriter_WriteHeader_def ResponseSnifferingWriter_Header_def
  MultiWriter_Write_def response_Write_def response_WriteHeader_def Header_Get_def
  index_def gzip_NewReader_def MethodOptions_def StatusOK_def fresh_response_def
  get_request_def post_request_def


lemma MultiWriter_Write_Status:
  "Status (fst (MultiWriter_Write sw p)) = Status sw"
  by (simp add: MultiWriter_Write_def Let_def split: prod.splits)












lemma sniffer_call_Status:
  assumes "\<forall>s. c \<noteq> CallWriteHeader s"
  shows "Status (sniffer_call sw c) = Status sw"
  using assms
  by (cases c) (simp_all add: ResponseSnifferingWriter_Write_def MultiWriter_Write_Status)

text \<open>Only \<open>WriteHeader\<close> on the sniffing writer changes the recorded status.\<close>

lemma sniffer_fold_Status:
  assumes "\<forall>c\<in>set cs. \<forall>s. c \<noteq> CallWriteHeader s"
  shows "Status (foldl sniffer_call sw cs) = Status sw"
  using assms by (induction cs arbitrary: sw) (simp_all add: sniffer_call_Status)

lemma foldl_append_strings: "foldl (@) acc v = acc @ concat v"
  by (induction v arbitrary: acc) simp_all

lemma dumpResponse_identity:
  assumes "Header_Get (handlerHeader (ResponseWriter sw)) ''Content-Encoding'' \<noteq> ''gzip''"
  shows "dumpResponse codec sw =
           Inr \<lparr>resp_Headers = map_option concat \<circ> handlerHeader (ResponseWriter sw),
                resp_Body = BytesBuffer sw, resp_StatusCode = Status sw\<rparr>"
  using assms
  by (auto simp: dumpResponse_def Let_def foldl_append_strings fun_eq_iff split: option.splits)

text \<open>
  Under a declared gzip encoding the outcome is decided by the pointer that
  \<open>gzip.NewReader\<close> returned: reading through the \<open>nil\<close> pointer panics.
\<close>

lemma dumpResponse_gzip:
  assumes "Header_Get (handlerHeader (ResponseWriter sw)) ''Content-Encoding'' = ''gzip''"
  shows "dumpResponse codec sw =
           (case fst (gzip_NewReader codec (BytesBuffer sw)) of
              None \<Rightarrow> Inl NilPointerDereference
            | Some (d, e) \<Rightarrow>
                Inr \<lparr>resp_Headers = map_option concat \<circ> handlerHeader (ResponseWriter sw),
                     resp_Body = d, resp_StatusCode = Status sw\<rparr>)"
  using assms
  by (auto simp: dumpResponse_def Let_def foldl_append_strings fun_eq_iff split: option.splits)

lemma NewDumpMiddleware_OPTIONS:
  assumes "Method r = MethodOptions"
  shows "NewDumpMiddleware codec now next w r = Inr (foldl response_call w (next r), r, [])"
  using assms by (simp add: NewDumpMiddleware_def)

lemma NewDumpMiddleware_once:
  assumes "Method r \<noteq> MethodOptions"
      and "NewDumpMiddleware codec now next w r = Inr (w', r', ds)"
  shows "length ds = 1"
  using assms by (auto simp: NewDumpMiddleware_def Let_def split: sum.splits)

lemma NewDumpMiddleware_status_unset:
  assumes "Method r \<noteq> MethodOptions"
      and "\<forall>r'. \<forall>c\<in>set (next r'). \<forall>s. c \<noteq> CallWriteHeader s"
      and "NewDumpMiddleware codec now next w r = Inr (w', r', ds)"
  shows "map (resp_StatusCode \<circ> Response) ds = [0]"
proof -
  from assms(1,3) obtain requestData r1 responseData where
      "dumpRequest r = Inr (requestData, r1)"
      and resp: "dumpResponse codec (foldl sniffer_call (NewResponseSnifferingWriter w) (next r1))
                   = Inr responseData"
      and ds: "ds = [\<lparr>Timestamp = now, Request = requestData, Response = responseData\<rparr>]"
    by (auto simp: NewDumpMiddleware_def Let_def split: sum.splits)
  let ?sw = "foldl sniffer_call (NewResponseSnifferingWriter w) (next r1)"
  have "Status ?sw = 0"
    using sniffer_fold_Status [of "next r1" "NewResponseSnifferingWriter w"] assms(2)
    by (simp add: NewResponseSnifferingWriter_def)
  moreover have "resp_StatusCode responseData = Status ?sw"
    using resp
    by (cases "Header_Get (handlerHeader (ResponseWriter ?sw)) ''Content-Encoding'' = ''gzip''")
       (auto simp: dumpResponse_identity dumpResponse_gzip split: option.splits)
  ultimately show ?thesis using ds by simp
qed

section \<open>Request capture\<close>

text \<open>
  C5. Whatever request body reads as the bytes \<open>B\<close> (the empty body included, and
  whatever error ends the reading), \<open>dumpRequest\<close> stores \<open>B\<close> as the body string of the
  dump and leaves the request with a fresh reader over \<open>B\<close>, which read from its start
  yields \<open>B\<close> in full; on a request that is not OPTIONS the dump middleware calls the
  downstream handler with exactly this request.
\<close>

theorem dumpRequest_restores_body:
  assumes "ioutil_ReadAll (Body r) = Inr (Some B, e)"
  shows "(\<exists>d. dumpRequest r = Inr (d, r\<lparr>Body := BytesReader B\<rparr>) \<and> req_Body d = B)
       \<and> ioutil_ReadAll (Body (r\<lparr>Body := BytesReader B\<rparr>)) = Inr (Some B, None)
       \<and> (Method r \<noteq> MethodOptions \<longrightarrow>
            NewDumpMiddleware codec now next w r =
            NewDumpMiddleware codec now (\<lambda>_. next (r\<lparr>Body := BytesReader B\<rparr>)) w r)"
  using assms by (simp add: dumpRequest_def NewDumpMiddleware_def)

theorem dumpRequest_restores_body_witness:
  "ioutil_ReadAll (Body post_request) = Inr (Some ''payload'', None)
   \<and> Method post_request \<noteq> MethodOptions
   \<and> (\<exists>d. dumpRequest post_request = Inr (d, post_request\<lparr>Body := BytesReader ''payload''\<rparr>)
          \<and> req_Body d = ''payload'')
   \<and> NewDumpMiddleware sample_codec 0 handler_body_only (fresh_response []) post_request =
     NewDumpMiddleware sample_codec 0
       (\<lambda>_. handler_body_only (post_request\<lparr>Body := BytesReader ''payload''\<rparr>))
       (fresh_response []) post_request"
proof -
  have h: "ioutil_ReadAll (Body post_request) = Inr (Some ''payload'', None)"
    by (simp add: post_request_def)
  have m: "Method post_request \<noteq> MethodOptions"
    by (simp add: post_request_def MethodOptions_def)
  from dumpRequest_restores_body
         [OF h, of sample_codec 0 handler_body_only "fresh_response []"] h m
  show ?thesis by simp
qed

section \<open>Response interception\<close>






section \<open>Response capture\<close>



text \<open>
  C9. In every dump that \<open>dumpResponse\<close> produces, every key of the response headers is
  bound to the concatenation of the values of that header, in their order, with nothing
  between them, and no other key is bound.
\<close>

theorem dumpResponse_headers_flattened:
  assumes "dumpResponse codec sw = Inr d"
  shows "resp_Headers d k = map_option concat (ResponseSnifferingWriter_Header sw k)"
  using assms
  by (cases "Header_Get (handlerHeader (ResponseWriter sw)) ''Content-Encoding'' = ''gzip''")
     (auto simp: ResponseSnifferingWriter_Header_def dumpResponse_identity dumpResponse_gzip
        split: option.splits)

theorem dumpResponse_headers_flattened_witness:
  "ResponseSnifferingWriter_Header
     (foldl sniffer_call (NewResponseSnifferingWriter (fresh_response []))
        (handler_two_values get_request)) ''Vary'' = Some [''Origin'', ''Accept'']
   \<and> (\<exists>d. dumpResponse sample_codec
             (foldl sniffer_call (NewResponseSnifferingWriter (fresh_response []))
                (handler_two_values get_request)) = Inr d
          \<and> resp_Headers d ''Vary'' = Some ''OriginAccept''
          \<and> resp_Headers d ''Server'' = None)"
proof -
  let ?sw = "foldl sniffer_call (NewResponseSnifferingWriter (fresh_response []))
               (handler_two_values get_request)"
  have k: "ResponseSnifferingWriter_Header ?sw ''Vary'' = Some [''Origin'', ''Accept'']"
    by (simp add: eval_defs handler_two_values_def)
  have n: "ResponseSnifferingWriter_Header ?sw ''Server'' = None"
    by (simp add: eval_defs handler_two_values_def)
  have "Header_Get (handlerHeader (ResponseWriter ?sw)) ''Content-Encoding'' \<noteq> ''gzip''"
    by (simp add: eval_defs handler_two_values_def)
  then obtain d where d: "dumpResponse sample_codec ?sw = Inr d"
    using dumpResponse_identity [of ?sw sample_codec] by simp
  from dumpResponse_headers_flattened [OF d, of "''Vary''"]
       dumpResponse_headers_flattened [OF d, of "''Server''"] d k n
  show ?thesis by simp
qed

section \<open>The origin echo\<close>





subsection \<open>The rewriting middleware around a handler\<close>

text \<open>
  The overlay is applied by \<open>WriteHeader\<close> on the rewriting writer. A handler that calls
  it before writing gets the echoed origin into the headers that are sent.
  \<open>rewriteResponseWriter.Write\<close> hands the bytes to the real writer as they are, so for a
  handler that only writes, the real writer sends its headers without the overlay.
\<close>

lemmas rewrite_eval_defs = NewResponseHeaderWriteMiddlwware_def
  rewriteResponseWriter_WriteHeader_def rewriteResponseWriter_Write_def
  castToHeaderForRequest_def allow_origin_overlay_def response_Write_def
  response_WriteHeader_def index_def StatusOK_def fresh_response_def get_request_def

lemma rewriting_middleware_explicit_status:
  "sentHeader (NewResponseHeaderWriteMiddlwware allow_origin_overlay handler_status_then_body
                 (fresh_response []) get_request) ''Access-Control-Allow-Origin''
     = Some [''https://example.com'']
   \<and> sentHeader (NewResponseHeaderWriteMiddlwware allow_origin_overlay handler_status_then_body
                 (fresh_response []) get_request) ''Access-Control-Allow-Headers''
     = Some [''*'']
   \<and> status (NewResponseHeaderWriteMiddlwware allow_origin_overlay handler_status_then_body
                 (fresh_response []) get_request) = 201"
  by (simp add: rewrite_eval_defs handler_status_then_body_def Let_def)

lemma rewriting_middleware_body_only:
  "sentHeader (NewResponseHeaderWriteMiddlwware allow_origin_overlay handler_body_only
                 (fresh_response []) get_request) ''Access-Control-Allow-Origin'' = None
   \<and> status (NewResponseHeaderWriteMiddlwware allow_origin_overlay handler_body_only
                 (fresh_response []) get_request) = 200"
  by (simp add: rewrite_eval_defs handler_body_only_def Let_def)

section \<open>Where the code leaves the specification\<close>

text \<open>
  C1. A handler declares \<open>Content-Encoding: gzip\<close> and writes twenty bytes of plain
  text. \<open>gzip.NewReader\<close> refuses the header and returns the \<open>nil\<close> pointer with its error;
  the error is dropped, the pointer is read, and the middleware ends in a panic: no
  dump is produced.
\<close>

theorem dump_gzip_malformed_panics:
  "NewDumpMiddleware codec now handler_gzip_text (fresh_response []) get_request
     = Inl NilPointerDereference"
  by (simp add: eval_defs handler_gzip_text_def)

text \<open>
  C2. A handler writes a body and never calls \<open>WriteHeader\<close>. The server's writer sends
  the status 200, and the dump handed to the sink records the status 0.
\<close>

theorem dump_status_unset_is_zero:
  "map (resp_StatusCode \<circ> Response)
     (dumped (NewDumpMiddleware codec now handler_body_only (fresh_response []) get_request))
     = [0]
   \<and> map_sum id (status \<circ> fst)
       (NewDumpMiddleware codec now handler_body_only (fresh_response []) get_request)
     = Inr StatusOK"
  by (simp add: eval_defs handler_body_only_def dumped_def)

text \<open>
  C8. A GET request whose handler declares \<open>Content-Encoding: gzip\<close> and writes no
  body: the middleware panics before the sink is started, so the sink is invoked
  zero times for a request that is not OPTIONS.
\<close>

theorem dump_sink_not_invoked_on_panic:
  "Method get_request \<noteq> MethodOptions
   \<and> NewDumpMiddleware codec now handler_gzip_no_body (fresh_response []) get_request
       = Inl NilPointerDereference
   \<and> dumped (NewDumpMiddleware codec now handler_gzip_no_body (fresh_response []) get_request)
       = []"
  by (simp add: eval_defs handler_gzip_no_body_def dumped_def)

end
